theory Spec2Isabelle
  imports Main "HOL-Library.Sublist" "HOL-Library.Product_Lexorder"
begin

section \<open>Python values used by the release-notes scripts\<close>

text \<open>
  The two scripts \<^verbatim>\<open>generate_release_notes.py\<close> and \<^verbatim>\<open>gh_releases.py\<close> work on
  Python \<^verbatim>\<open>str\<close> values. A \<^typ>\<open>string\<close> stands for a \<^verbatim>\<open>str\<close> whose code points are
  all below 256, one \<^typ>\<open>char\<close> per code point. Exceptions are values: a function that
  can raise returns \<open>error + 'a\<close>, with \<open>Inl\<close> carrying the exception.
\<close>

datatype error = TypeError | AttributeError | IndexError | ValueError | JSONDecodeError

text \<open>\<^verbatim>\<open>xs[j]\<close> for a non-negative index: out of range raises \<^verbatim>\<open>IndexError\<close>.\<close>

definition subscript :: "'a list \<Rightarrow> nat \<Rightarrow> error + 'a" where
  "subscript xs j = (if j < length xs then Inr (xs ! j) else Inl IndexError)"

text \<open>
  \<^verbatim>\<open>str.splitlines()\<close>: the line boundaries below code point 256 are
  \<^verbatim>\<open>\n \v \f \r \x1c \x1d \x1e \x85\<close>, and \<^verbatim>\<open>\r\n\<close> counts as one boundary. The boundaries
  are not part of the lines, and a boundary at the very end opens no further line.
\<close>

definition is_linebreak :: "char \<Rightarrow> bool" where
  "is_linebreak c \<longleftrightarrow>
     c \<in> set [CHR 0x0A, CHR 0x0B, CHR 0x0C, CHR 0x0D, CHR 0x1C, CHR 0x1D, CHR 0x1E, CHR 0x85]"

fun splitlines_from :: "string \<Rightarrow> string \<Rightarrow> string list" where
  "splitlines_from cur [] = (if cur = [] then [] else [cur])"
| "splitlines_from cur [c] = (if is_linebreak c then [cur] else [cur @ [c]])"
| "splitlines_from cur (c # d # cs) =
     (if c = CHR 0x0D \<and> d = CHR 0x0A then cur # splitlines_from [] cs
      else if is_linebreak c then cur # splitlines_from [] (d # cs)
      else splitlines_from (cur @ [c]) (d # cs))"

definition splitlines :: "string \<Rightarrow> string list" where
  "splitlines s = splitlines_from [] s"

text \<open>
  \<^verbatim>\<open>str.strip()\<close> removes white space at both ends; below code point 256 the white space
  characters are \<^verbatim>\<open>\t \n \v \f \r \x1c \x1d \x1e \x1f\<close>, the space, \<^verbatim>\<open>\x85\<close> and \<^verbatim>\<open>\xa0\<close>.
\<close>

definition is_space :: "char \<Rightarrow> bool" where
  "is_space c \<longleftrightarrow>
     c \<in> set [CHR 0x09, CHR 0x0A, CHR 0x0B, CHR 0x0C, CHR 0x0D, CHR 0x1C, CHR 0x1D, CHR 0x1E,
              CHR 0x1F, CHR 0x20, CHR 0x85, CHR 0xA0]"

definition strip :: "string \<Rightarrow> string" where
  "strip s = rev (dropWhile is_space (rev (dropWhile is_space s)))"

text \<open>
  The class \<^verbatim>\<open>\w\<close> of a \<^verbatim>\<open>str\<close> pattern: the underscore and every alphanumeric
  character; below code point 256 these are the ASCII letters and digits, the letters
  of Latin-1 (\<^verbatim>\<open>\xc0\<close> to \<^verbatim>\<open>\xff\<close> without the two operators \<^verbatim>\<open>\xd7\<close> and \<^verbatim>\<open>\xf7\<close>,
  and \<^verbatim>\<open>\xaa \xb5 \xba\<close>), the superscript digits \<^verbatim>\<open>\xb2 \xb3 \xb9\<close> and the
  fractions \<^verbatim>\<open>\xbc \xbd \xbe\<close>.
\<close>

definition is_word :: "char \<Rightarrow> bool" where
  "is_word c \<longleftrightarrow>
     (let n = (of_char c :: nat) in
        (0x30 \<le> n \<and> n \<le> 0x39) \<or> (0x41 \<le> n \<and> n \<le> 0x5A) \<or> n = 0x5F \<or>
        (0x61 \<le> n \<and> n \<le> 0x7A) \<or>
        n \<in> set [0xAA, 0xB2, 0xB3, 0xB5, 0xB9, 0xBA, 0xBC, 0xBD, 0xBE] \<or>
        (0xC0 \<le> n \<and> n \<noteq> 0xD7 \<and> n \<noteq> 0xF7))"

section \<open>Ticket extraction\<close>

text \<open>
  \<^verbatim>\<open>re.compile(r"### Ticket").match(line)\<close>: the pattern is a literal, and \<^verbatim>\<open>match\<close>
  anchors it at the start of the line only, so the match succeeds exactly when the line
  begins with the pattern.
\<close>

definition jira_ticket_section :: string where
  "jira_ticket_section = ''### Ticket''"

definition re_match_literal :: "string \<Rightarrow> string \<Rightarrow> bool" where
  "re_match_literal pattern line \<longleftrightarrow> prefix pattern line"

text \<open>
  \<^verbatim>\<open>extract_jira_ticket_no\<close> of \<^verbatim>\<open>generate_release_notes.py\<close>: the loop
  \<^verbatim>\<open>for i, line in enumerate(lines)\<close> returns \<^verbatim>\<open>lines[i + 1]\<close> at the first line the
  pattern matches, and the function returns \<^verbatim>\<open>""\<close> when the loop ends.
\<close>

function ticket_loop :: "string list \<Rightarrow> nat \<Rightarrow> error + string" where
  "ticket_loop lines i =
     (if i < length lines then
        (if re_match_literal jira_ticket_section (lines ! i) then subscript lines (i + 1)
         else ticket_loop lines (i + 1))
      else Inr [])"
  by pat_completeness auto
termination
  by (relation "measure (\<lambda>(lines, i). length lines - i)") auto

declare ticket_loop.simps [simp del]

definition extract_jira_ticket_no :: "string \<Rightarrow> error + string" where
  "extract_jira_ticket_no pr_body = ticket_loop (splitlines pr_body) 0"

text \<open>
  The variant in \<^verbatim>\<open>gh_releases.py\<close> computes the match and then tests
  \<^verbatim>\<open>if jira_ticket_section:\<close>, the compiled pattern object, which is always true.
\<close>

definition pattern_truthy :: "string \<Rightarrow> bool" where
  "pattern_truthy pattern \<longleftrightarrow> True"

function gh_ticket_loop :: "string list \<Rightarrow> nat \<Rightarrow> error + string" where
  "gh_ticket_loop lines i =
     (if i < length lines then
        (let section_match = re_match_literal jira_ticket_section (lines ! i) in
         if pattern_truthy jira_ticket_section then subscript lines (i + 1)
         else gh_ticket_loop lines (i + 1))
      else Inr [])"
  by pat_completeness auto
termination
  by (relation "measure (\<lambda>(lines, i). length lines - i)") auto

declare gh_ticket_loop.simps [simp del]

definition gh_extract_jira_ticket_no :: "string \<Rightarrow> error + string" where
  "gh_extract_jira_ticket_no pr_body = gh_ticket_loop (splitlines pr_body) 0"

section \<open>Changelog extraction\<close>

text \<open>
  The dictionary \<^verbatim>\<open>release_notes\<close> keeps its keys in insertion order, which is the order
  \<^verbatim>\<open>items()\<close> yields them in; it is an association list.
\<close>

type_synonym release_notes = "(string \<times> string list) list"

definition initial_release_notes :: release_notes where
  "initial_release_notes =
     [(''Added'', []), (''Changed'', []), (''Deprecated'', []),
      (''Removed'', []), (''Fixed'', []), (''Security'', [])]"

text \<open>\<^verbatim>\<open>key in release_notes\<close>.\<close>

definition contains_key :: "string \<Rightarrow> release_notes \<Rightarrow> bool" where
  "contains_key k d \<longleftrightarrow> k \<in> set (map fst d)"

text \<open>
  \<^verbatim>\<open>release_notes[k].append(v)\<close>. The key is always present where the loop below
  appends, since \<^verbatim>\<open>current_section\<close> is only ever set to a key of the dictionary.
\<close>

fun dict_append :: "string \<Rightarrow> string \<Rightarrow> release_notes \<Rightarrow> release_notes" where
  "dict_append k v [] = []"
| "dict_append k v ((k', vs) # d) =
     (if k' = k then (k', vs @ [v]) # d else (k', vs) # dict_append k v d)"

text \<open>
  \<^verbatim>\<open>re.compile(r"### (\w+)").match(line)\<close>: \<open>None\<close> when there is no match, else group 1,
  the longest run of word characters after the four characters \<^verbatim>\<open>"### "\<close>.
\<close>

definition section_regex_match :: "string \<Rightarrow> string option" where
  "section_regex_match line =
     (if prefix ''### '' line \<and> takeWhile is_word (drop 4 line) \<noteq> []
      then Some (takeWhile is_word (drop 4 line)) else None)"

text \<open>
  \<^verbatim>\<open>re.compile(r"- (.+)").match(line)\<close>: group 1 is everything after \<^verbatim>\<open>"- "\<close> up to a
  newline (the dot matches every character but \<^verbatim>\<open>\n\<close>), at least one character.
\<close>

definition bullet_point_regex_match :: "string \<Rightarrow> string option" where
  "bullet_point_regex_match line =
     (if prefix ''- '' line \<and> takeWhile (\<lambda>c. c \<noteq> CHR 0x0A) (drop 2 line) \<noteq> []
      then Some (takeWhile (\<lambda>c. c \<noteq> CHR 0x0A) (drop 2 line)) else None)"

text \<open>
  One pass of the loop body of \<^verbatim>\<open>extract_changelog\<close> on the state
  \<^verbatim>\<open>(current_section, release_notes)\<close>. A set \<^verbatim>\<open>current_section\<close> is a captured word,
  hence a non-empty \<^verbatim>\<open>str\<close>, and so true in \<^verbatim>\<open>bullet_point_match and current_section\<close>.
\<close>

definition changelog_step ::
  "string \<Rightarrow> string option \<times> release_notes \<Rightarrow> string option \<times> release_notes" where
  "changelog_step line st =
     (case st of (current_section, notes) \<Rightarrow>
        (case section_regex_match line of
           Some word \<Rightarrow>
             (if \<not> contains_key word notes then (None, notes) else (Some word, notes))
         | None \<Rightarrow>
             (case bullet_point_regex_match line of
                None \<Rightarrow> (current_section, notes)
              | Some text \<Rightarrow>
                  (case current_section of
                     None \<Rightarrow> (current_section, notes)
                   | Some sec \<Rightarrow> (current_section, dict_append sec (strip text) notes)))))"

fun changelog_loop ::
  "string list \<Rightarrow> string option \<times> release_notes \<Rightarrow> string option \<times> release_notes" where
  "changelog_loop [] st = st"
| "changelog_loop (line # lines) st = changelog_loop lines (changelog_step line st)"

definition extract_changelog :: "string \<Rightarrow> release_notes" where
  "extract_changelog pr_body =
     snd (changelog_loop (splitlines pr_body) (None, initial_release_notes))"

text \<open>
  The extraction as the specification words it, for comparison with the loop: the
  category in force before each line, and for a category the trimmed texts of the
  bullet lines met while that category is in force, in line order.
\<close>

definition six_categories :: "string list" where
  "six_categories = [''Added'', ''Changed'', ''Deprecated'', ''Removed'', ''Fixed'', ''Security'']"



section \<open>Release body\<close>

text \<open>
  A naive \<^verbatim>\<open>datetime\<close> is its fields (year, month, day, hour, minute, second,
  microsecond); naive values compare field by field in this order. A \<^verbatim>\<open>datetime\<close> with a
  time zone is aware, and comparing a naive with an aware one raises \<^verbatim>\<open>TypeError\<close>, as
  does comparing a \<^verbatim>\<open>datetime\<close> with \<^verbatim>\<open>None\<close>.
\<close>

type_synonym datetime = "nat \<times> nat \<times> nat \<times> nat \<times> nat \<times> nat \<times> nat"

datatype py_datetime = Naive datetime | Aware datetime

text \<open>\<^verbatim>\<open>merged_at > since\<close>, for the naive \<^verbatim>\<open>merged_at\<close> that \<^verbatim>\<open>strptime\<close> returns.\<close>

fun datetime_gt :: "datetime \<Rightarrow> py_datetime option \<Rightarrow> error + bool" where
  "datetime_gt m None = Inl TypeError"
| "datetime_gt m (Some (Aware d)) = Inl TypeError"
| "datetime_gt m (Some (Naive d)) = Inr (d < m)"

text \<open>The dictionary appended to \<^verbatim>\<open>merged_prs\<close> for a qualifying pull request.\<close>

record entry =
  title :: string
  release_notes :: release_notes
  ticket_no :: string
  merged_at :: datetime

text \<open>
  The three nested \<^verbatim>\<open>for\<close> statements of \<^verbatim>\<open>generate_release_body\<close>, each threading the string
  \<^verbatim>\<open>release_body\<close> that \<^verbatim>\<open>+=\<close> extends. The \<^verbatim>\<open>print\<close> calls write to standard output only
  and are left out.
\<close>

fun bullet_points_loop :: "string list \<Rightarrow> string \<Rightarrow> string" where
  "bullet_points_loop [] release_body = release_body"
| "bullet_points_loop (bullet_point # bullet_points) release_body =
     bullet_points_loop bullet_points (release_body @ ''- '' @ bullet_point @ ''\<newline>'')"

fun items_loop :: "release_notes \<Rightarrow> string \<Rightarrow> string" where
  "items_loop [] release_body = release_body"
| "items_loop ((sec, bullet_points) # items) release_body =
     (if bullet_points \<noteq> []
      then items_loop items
             (bullet_points_loop bullet_points (release_body @ ''### '' @ sec @ ''\<newline>''))
      else items_loop items release_body)"

fun merged_prs_loop :: "entry list \<Rightarrow> string \<Rightarrow> string" where
  "merged_prs_loop [] release_body = release_body"
| "merged_prs_loop (pr # merged_prs) release_body =
     merged_prs_loop merged_prs
       (items_loop (release_notes pr)
          (release_body @ ''## '' @ ticket_no pr @ '' - '' @ title pr @ ''\<newline>''))"

text \<open>
  The rendering as the specification words it: the lines of one section, and the
  document as the sections one after the other, every line ended by a newline.
\<close>

definition spec_category_lines :: "string \<times> string list \<Rightarrow> string list" where
  "spec_category_lines item =
     (if snd item = [] then [] else (''### '' @ fst item) # map (\<lambda>b. ''- '' @ b) (snd item))"

definition spec_section_lines :: "entry \<Rightarrow> string list" where
  "spec_section_lines e =
     (''## '' @ ticket_no e @ '' - '' @ title e) # concat (map spec_category_lines (release_notes e))"

definition unlines :: "string list \<Rightarrow> string" where
  "unlines ls = concat (map (\<lambda>l. l @ ''\<newline>'') ls)"

definition spec_release_body :: "entry list \<Rightarrow> string" where
  "spec_release_body es = unlines (concat (map spec_section_lines es))"

section \<open>Fetching the merged pull requests\<close>

text \<open>
  The fields of a pull request object of the GitHub API that the script reads:
  \<^verbatim>\<open>title\<close> is a string, \<^verbatim>\<open>body\<close> and \<^verbatim>\<open>merged_at\<close> are a string or \<^verbatim>\<open>null\<close>.
\<close>

record pull_request =
  pr_title :: string
  pr_body :: "string option"
  pr_merged_at :: "string option"

text \<open>
  What \<^verbatim>\<open>response.json()\<close> can return for the pulls endpoint: \<^verbatim>\<open>null\<close>, an object (the
  API's error document, given by its keys) or an array of pull request objects. A
  response has a status code and a body; the body may fail to be JSON.
\<close>

datatype json = JsonNull | JsonObject "string list" | JsonArray "pull_request list"

record response =
  status_code :: nat
  json_body :: "json option"

definition response_json :: "response \<Rightarrow> error + json" where
  "response_json r = (case json_body r of None \<Rightarrow> Inl JSONDecodeError | Some j \<Rightarrow> Inr j)"

text \<open>Truth value of the decoded document, as \<^verbatim>\<open>if not prs\<close> tests it.\<close>

fun truthy :: "json \<Rightarrow> bool" where
  "truthy JsonNull = False"
| "truthy (JsonObject ks) = (ks \<noteq> [])"
| "truthy (JsonArray prs) = (prs \<noteq> [])"

text \<open>
  \<^verbatim>\<open>datetime.strptime(pr['merged_at'], '%Y-%m-%dT%H:%M:%SZ') if pr['merged_at'] else None\<close>.
  The library's parser is a parameter \<open>strptime\<close>; it returns a naive \<^verbatim>\<open>datetime\<close> or
  raises. The empty string is false, like \<^verbatim>\<open>None\<close>.
\<close>

definition parse_merged_at ::
  "(string \<Rightarrow> error + datetime) \<Rightarrow> pull_request \<Rightarrow> error + datetime option" where
  "parse_merged_at strptime pr =
     (case pr_merged_at pr of
        None \<Rightarrow> Inr None
      | Some s \<Rightarrow>
          (if s = [] then Inr None
           else (case strptime s of Inl e \<Rightarrow> Inl e | Inr d \<Rightarrow> Inr (Some d))))"

text \<open>
  The dictionary display evaluates its values in order: \<^verbatim>\<open>extract_changelog(pr['body'])\<close>
  first, which raises \<^verbatim>\<open>AttributeError\<close> on \<^verbatim>\<open>None.splitlines()\<close>, then
  \<^verbatim>\<open>extract_jira_ticket_no(pr['body'])\<close>.
\<close>

definition new_entry :: "pull_request \<Rightarrow> datetime \<Rightarrow> error + entry" where
  "new_entry pr m =
     (case pr_body pr of
        None \<Rightarrow> Inl AttributeError
      | Some b \<Rightarrow>
          (case extract_jira_ticket_no b of
             Inl e \<Rightarrow> Inl e
           | Inr t \<Rightarrow>
               Inr \<lparr>title = pr_title pr, release_notes = extract_changelog b,
                    ticket_no = t, merged_at = m\<rparr>))"

text \<open>The loop \<^verbatim>\<open>for pr in prs\<close> over the pull requests of one page.\<close>

fun prs_loop ::
  "(string \<Rightarrow> error + datetime) \<Rightarrow> py_datetime option \<Rightarrow> pull_request list \<Rightarrow> entry list
     \<Rightarrow> error + entry list" where
  "prs_loop strptime since [] merged_prs = Inr merged_prs"
| "prs_loop strptime since (pr # prs) merged_prs =
     (case parse_merged_at strptime pr of
        Inl e \<Rightarrow> Inl e
      | Inr None \<Rightarrow> prs_loop strptime since prs merged_prs
      | Inr (Some m) \<Rightarrow>
          (case datetime_gt m since of
             Inl e \<Rightarrow> Inl e
           | Inr False \<Rightarrow> prs_loop strptime since prs merged_prs
           | Inr True \<Rightarrow>
               (case new_entry pr m of
                  Inl e \<Rightarrow> Inl e
                | Inr d \<Rightarrow> prs_loop strptime since prs (merged_prs @ [d]))))"

text \<open>
  \<^verbatim>\<open>for pr in prs\<close> on the decoded document: iterating an object yields its keys, and
  \<^verbatim>\<open>pr['merged_at']\<close> on a key, a \<^verbatim>\<open>str\<close>, raises \<^verbatim>\<open>TypeError\<close>; \<^verbatim>\<open>None\<close> is not iterable.
\<close>

fun for_pr_in ::
  "(string \<Rightarrow> error + datetime) \<Rightarrow> py_datetime option \<Rightarrow> json \<Rightarrow> entry list
     \<Rightarrow> error + entry list" where
  "for_pr_in strptime since JsonNull merged_prs = Inl TypeError"
| "for_pr_in strptime since (JsonObject ks) merged_prs =
     (if ks = [] then Inr merged_prs else Inl TypeError)"
| "for_pr_in strptime since (JsonArray prs) merged_prs = prs_loop strptime since prs merged_prs"

text \<open>
  The loop \<^verbatim>\<open>while True\<close> of \<^verbatim>\<open>get_merged_prs\<close>. The parameter \<open>get\<close> is the remote
  side: \<open>get page\<close> is the response to the request for that page. The loop may run
  forever, which is the value \<open>None\<close>. A run that ends gives the list of the pages it
  requested, in order, and what the function returned or raised. The status code of
  a response is never read.
\<close>

partial_function (option) get_merged_prs_loop ::
  "(string \<Rightarrow> error + datetime) \<Rightarrow> (nat \<Rightarrow> response) \<Rightarrow> py_datetime option \<Rightarrow> nat \<Rightarrow> nat list
     \<Rightarrow> entry list \<Rightarrow> (nat list \<times> (error + entry list)) option" where
  "get_merged_prs_loop strptime get since page requested merged_prs =
     (case response_json (get page) of
        Inl e \<Rightarrow> Some (requested @ [page], Inl e)
      | Inr prs \<Rightarrow>
          (if \<not> truthy prs then Some (requested @ [page], Inr merged_prs)
           else (case for_pr_in strptime since prs merged_prs of
                   Inl e \<Rightarrow> Some (requested @ [page], Inl e)
                 | Inr merged_prs' \<Rightarrow>
                     get_merged_prs_loop strptime get since (page + 1) (requested @ [page])
                       merged_prs')))"

declare get_merged_prs_loop.simps [code]

definition get_merged_prs ::
  "(string \<Rightarrow> error + datetime) \<Rightarrow> (nat \<Rightarrow> response) \<Rightarrow> py_datetime option
     \<Rightarrow> (nat list \<times> (error + entry list)) option" where
  "get_merged_prs strptime get since = get_merged_prs_loop strptime get since 1 [] []"

text \<open>
  \<^verbatim>\<open>generate_release_body(since)\<close>: \<^verbatim>\<open>datetime.fromisoformat(since)\<close> raises \<^verbatim>\<open>TypeError\<close>
  when \<^verbatim>\<open>since\<close> is not a \<^verbatim>\<open>str\<close>; on a \<^verbatim>\<open>str\<close> the library's parser, the parameter
  \<open>fromisoformat\<close>, returns a naive or an aware \<^verbatim>\<open>datetime\<close> or raises.
\<close>

definition generate_release_body ::
  "(string \<Rightarrow> error + py_datetime) \<Rightarrow> (string \<Rightarrow> error + datetime) \<Rightarrow> (nat \<Rightarrow> response)
     \<Rightarrow> string option \<Rightarrow> (nat list \<times> (error + string)) option" where
  "generate_release_body fromisoformat strptime get since =
     (case since of
        None \<Rightarrow> Some ([], Inl TypeError)
      | Some s \<Rightarrow>
          (case fromisoformat s of
             Inl e \<Rightarrow> Some ([], Inl e)
           | Inr since' \<Rightarrow>
               (case get_merged_prs strptime get (Some since') of
                  None \<Rightarrow> None
                | Some (requested, Inl e) \<Rightarrow> Some (requested, Inl e)
                | Some (requested, Inr merged_prs) \<Rightarrow>
                    Some (requested, Inr (merged_prs_loop merged_prs [])))))"

section \<open>A remote side and parsers for the examples\<close>

text \<open>
  A remote side that holds finitely many pages: it answers the request for page \<open>p\<close>
  with the \<open>p\<close>-th of them and every later request with status 200 and the empty array.
\<close>

definition ok :: "pull_request list \<Rightarrow> response" where
  "ok prs = \<lparr>status_code = 200, json_body = Some (JsonArray prs)\<rparr>"

definition serve :: "response list \<Rightarrow> nat \<Rightarrow> response" where
  "serve pages page =
     (if 1 \<le> page \<and> page \<le> length pages then pages ! (page - 1) else ok [])"

text \<open>
  Stand-ins for the two parsers of the library, used in the examples only. They read
  a timestamp written with all its digits, \<^verbatim>\<open>YYYY-MM-DDTHH:MM:SS\<close>, as the library does,
  and reject every other string (the library reads some more forms).
\<close>

definition is_digit :: "char \<Rightarrow> bool" where
  "is_digit c \<longleftrightarrow> 48 \<le> (of_char c :: nat) \<and> (of_char c :: nat) \<le> 57"

definition decimal :: "string \<Rightarrow> nat" where
  "decimal s = foldl (\<lambda>a c. 10 * a + (of_char c - 48)) 0 s"

definition days_in_month :: "nat \<Rightarrow> nat \<Rightarrow> nat" where
  "days_in_month y mo =
     (if mo = 2 then (if y mod 4 = 0 \<and> (y mod 100 \<noteq> 0 \<or> y mod 400 = 0) then 29 else 28)
      else if mo = 4 \<or> mo = 6 \<or> mo = 9 \<or> mo = 11 then 30 else 31)"

definition timestamp_fields :: "string \<Rightarrow> datetime option" where
  "timestamp_fields s =
     (if length s = 19 \<and> s ! 4 = CHR ''-'' \<and> s ! 7 = CHR ''-'' \<and> s ! 10 = CHR ''T'' \<and>
         s ! 13 = CHR '':'' \<and> s ! 16 = CHR '':'' \<and>
         list_all is_digit
           (take 4 s @ take 2 (drop 5 s) @ take 2 (drop 8 s) @ take 2 (drop 11 s) @
            take 2 (drop 14 s) @ take 2 (drop 17 s))
      then
        (let y = decimal (take 4 s); mo = decimal (take 2 (drop 5 s));
             d = decimal (take 2 (drop 8 s)); h = decimal (take 2 (drop 11 s));
             mi = decimal (take 2 (drop 14 s)); sec = decimal (take 2 (drop 17 s))
         in if 1 \<le> y \<and> 1 \<le> mo \<and> mo \<le> 12 \<and> 1 \<le> d \<and> d \<le> days_in_month y mo \<and>
               h < 24 \<and> mi < 60 \<and> sec < 60
            then Some (y, mo, d, h, mi, sec, 0) else None)
      else None)"

definition strptime_utc :: "string \<Rightarrow> error + datetime" where
  "strptime_utc s =
     (if s \<noteq> [] \<and> last s = CHR ''Z''
      then (case timestamp_fields (butlast s) of None \<Rightarrow> Inl ValueError | Some d \<Rightarrow> Inr d)
      else Inl ValueError)"

definition fromisoformat_naive :: "string \<Rightarrow> error + py_datetime" where
  "fromisoformat_naive s =
     (case timestamp_fields s of None \<Rightarrow> Inl ValueError | Some d \<Rightarrow> Inr (Naive d))"




section \<open>Theorems: ticket extraction\<close>


lemma ticket_loop_first:
  assumes "i \<le> k" and "k < length lines"
    and "\<forall>j. i \<le> j \<and> j < k \<longrightarrow> \<not> re_match_literal jira_ticket_section (lines ! j)"
    and "re_match_literal jira_ticket_section (lines ! k)"
  shows "ticket_loop lines i = subscript lines (k + 1)"
  using assms
proof (induction lines i rule: ticket_loop.induct)
  case (1 lines i)
  show ?case
  proof (cases "i = k")
    case True
    with 1 show ?thesis by (simp add: ticket_loop.simps [of lines k])
  next
    case False
    with 1 have lt: "i < k" and nm: "\<not> re_match_literal jira_ticket_section (lines ! i)"
      by auto
    from lt 1 have "ticket_loop lines (i + 1) = subscript lines (k + 1)"
      by (intro "1.IH") auto
    with lt nm 1 show ?thesis by (simp add: ticket_loop.simps [of lines i])
  qed
qed

lemma ticket_loop_none:
  "(\<forall>j. i \<le> j \<and> j < length lines \<longrightarrow> \<not> re_match_literal jira_ticket_section (lines ! j)) \<Longrightarrow>
   ticket_loop lines i = Inr []"
proof (induction lines i rule: ticket_loop.induct)
  case (1 lines i)
  then show ?case by (simp add: ticket_loop.simps [of lines i])
qed

lemma ticket_loop_split:
  assumes "\<forall>l \<in> set pre. \<not> prefix ''### Ticket'' l" and "prefix ''### Ticket'' m"
  shows "ticket_loop (pre @ m # rest) 0 = subscript (pre @ m # rest) (length pre + 1)"
proof (rule ticket_loop_first)
  show "\<forall>j. 0 \<le> j \<and> j < length pre \<longrightarrow>
          \<not> re_match_literal jira_ticket_section ((pre @ m # rest) ! j)"
    using assms(1) by (simp add: nth_append re_match_literal_def jira_ticket_section_def)
  show "re_match_literal jira_ticket_section ((pre @ m # rest) ! length pre)"
    using assms(2) by (simp add: re_match_literal_def jira_ticket_section_def)
qed simp_all

lemma gh_ticket_loop_0: "gh_ticket_loop lines 0 = (if lines = [] then Inr [] else subscript lines 1)"
  by (simp add: gh_ticket_loop.simps [of lines 0] pattern_truthy_def)

text \<open>
  Claim C1, as the code has it. \<^verbatim>\<open>extract_jira_ticket_no\<close> of
  \<^verbatim>\<open>generate_release_notes.py\<close> looks for the first line that begins with the marker
  \<^verbatim>\<open>### Ticket\<close>: if no line begins with it the result is the empty string, and if the
  first such line has a successor the result is that successor, unchanged. So a body
  whose first marker line is followed by the line \<^verbatim>\<open>JIRA-123\<close> gives \<^verbatim>\<open>JIRA-123\<close>.
\<close>

theorem extract_jira_ticket_no_first_marker:
  "((\<forall>l \<in> set (splitlines body). \<not> prefix ''### Ticket'' l) \<longrightarrow>
      extract_jira_ticket_no body = Inr []) \<and>
   (\<forall>pre m nxt post.
      splitlines body = pre @ m # nxt # post \<and> (\<forall>l \<in> set pre. \<not> prefix ''### Ticket'' l) \<and>
      prefix ''### Ticket'' m \<longrightarrow>
      extract_jira_ticket_no body = Inr nxt)"
proof (intro conjI impI allI)
  assume "\<forall>l \<in> set (splitlines body). \<not> prefix ''### Ticket'' l"
  then show "extract_jira_ticket_no body = Inr []"
    unfolding extract_jira_ticket_no_def
    by (intro ticket_loop_none) (simp add: re_match_literal_def jira_ticket_section_def)
next
  fix pre m nxt post
  assume a: "splitlines body = pre @ m # nxt # post \<and>
             (\<forall>l \<in> set pre. \<not> prefix ''### Ticket'' l) \<and> prefix ''### Ticket'' m"
  then have "ticket_loop (pre @ m # nxt # post) 0 =
             subscript (pre @ m # nxt # post) (length pre + 1)"
    by (intro ticket_loop_split) simp_all
  with a show "extract_jira_ticket_no body = Inr nxt"
    by (simp add: extract_jira_ticket_no_def subscript_def nth_append)
qed

text \<open>The theorem of C1 at two bodies, one with the marker and one without.\<close>

theorem extract_jira_ticket_no_first_marker_witness:
  "splitlines ''Summary\<newline>### Ticket\<newline>JIRA-123\<newline>### Ticket\<newline>OTHER-9'' =
     [''Summary''] @ ''### Ticket'' # ''JIRA-123'' # [''### Ticket'', ''OTHER-9''] \<and>
   \<not> prefix ''### Ticket'' ''Summary'' \<and>
   prefix ''### Ticket'' ''### Ticket'' \<and>
   extract_jira_ticket_no ''Summary\<newline>### Ticket\<newline>JIRA-123\<newline>### Ticket\<newline>OTHER-9'' =
     Inr ''JIRA-123'' \<and>
   splitlines ''No marker\<newline>here'' = [''No marker'', ''here''] \<and>
   \<not> prefix ''### Ticket'' ''No marker'' \<and> \<not> prefix ''### Ticket'' ''here'' \<and>
   extract_jira_ticket_no ''No marker\<newline>here'' = Inr []"
proof -
  let ?b = "''Summary\<newline>### Ticket\<newline>JIRA-123\<newline>### Ticket\<newline>OTHER-9''"
  have sl: "splitlines ?b = [''Summary''] @ ''### Ticket'' # ''JIRA-123'' # [''### Ticket'', ''OTHER-9'']"
    by (simp add: splitlines_def is_linebreak_def)
  have pre: "\<forall>l \<in> set [''Summary'']. \<not> prefix ''### Ticket'' l"
    by simp
  have m: "prefix ''### Ticket'' ''### Ticket''"
    by simp
  have r: "extract_jira_ticket_no ?b = Inr ''JIRA-123''"
    using extract_jira_ticket_no_first_marker [of ?b] sl pre m by blast
  have sl2: "splitlines ''No marker\<newline>here'' = [''No marker'', ''here'']"
    by (simp add: splitlines_def is_linebreak_def)
  have no: "\<not> prefix ''### Ticket'' ''No marker''" "\<not> prefix ''### Ticket'' ''here''"
    by simp_all
  have r2: "extract_jira_ticket_no ''No marker\<newline>here'' = Inr []"
    using extract_jira_ticket_no_first_marker [of "''No marker\<newline>here''"] sl2 no by simp
  from sl pre m r sl2 no r2 show ?thesis by simp
qed

text \<open>
  C1 as it is worded fails: this body contains the two consecutive lines
  \<^verbatim>\<open>### Ticket\<close> and \<^verbatim>\<open>JIRA-123\<close>, and the result is the line after the earlier marker.
\<close>

theorem extract_jira_ticket_no_earlier_marker_counterexample:
  "splitlines ''### Ticket\<newline>ABC-9\<newline>### Ticket\<newline>JIRA-123'' =
     [''### Ticket'', ''ABC-9'', ''### Ticket'', ''JIRA-123''] \<and>
   extract_jira_ticket_no ''### Ticket\<newline>ABC-9\<newline>### Ticket\<newline>JIRA-123'' = Inr ''ABC-9'' \<and>
   extract_jira_ticket_no ''### Ticket\<newline>ABC-9\<newline>### Ticket\<newline>JIRA-123'' \<noteq> Inr ''JIRA-123''"
  by (simp add: extract_jira_ticket_no_def splitlines_def is_linebreak_def
      ticket_loop.simps re_match_literal_def jira_ticket_section_def subscript_def)

text \<open>
  Claim C2. For every body of at least two lines, \<^verbatim>\<open>extract_jira_ticket_no\<close> of
  \<^verbatim>\<open>gh_releases.py\<close> returns the second line, whatever the lines are: the test of the
  pattern object succeeds on the first line.
\<close>

theorem gh_extract_jira_ticket_no_second_line:
  "2 \<le> length (splitlines body) \<Longrightarrow>
   gh_extract_jira_ticket_no body = Inr (splitlines body ! 1)"
  by (auto simp: gh_extract_jira_ticket_no_def gh_ticket_loop_0 subscript_def)

text \<open>The theorem of C2 at a body whose marker is on the third line.\<close>

theorem gh_extract_jira_ticket_no_second_line_witness:
  "2 \<le> length (splitlines ''Summary of the change\<newline>no heading here\<newline>### Ticket\<newline>JIRA-123'') \<and>
   gh_extract_jira_ticket_no ''Summary of the change\<newline>no heading here\<newline>### Ticket\<newline>JIRA-123'' =
     Inr ''no heading here''"
proof -
  let ?b = "''Summary of the change\<newline>no heading here\<newline>### Ticket\<newline>JIRA-123''"
  have sl: "splitlines ?b = [''Summary of the change'', ''no heading here'', ''### Ticket'', ''JIRA-123'']"
    by (simp add: splitlines_def is_linebreak_def)
  then have h: "2 \<le> length (splitlines ?b)"
    by simp
  from gh_extract_jira_ticket_no_second_line [OF h] sl h show ?thesis
    by simp
qed

text \<open>
  Claim C10, as the code has it. When the first line that begins with the marker is
  the last line of the body, \<^verbatim>\<open>extract_jira_ticket_no\<close> of
  \<^verbatim>\<open>generate_release_notes.py\<close> reads one position past the end of the lines and
  raises \<^verbatim>\<open>IndexError\<close>; the variant of \<^verbatim>\<open>gh_releases.py\<close> does so for every body of
  exactly one line.
\<close>

theorem extract_jira_ticket_no_marker_last:
  "(\<forall>pre m. splitlines body = pre @ [m] \<and> (\<forall>l \<in> set pre. \<not> prefix ''### Ticket'' l) \<and>
      prefix ''### Ticket'' m \<longrightarrow>
      extract_jira_ticket_no body = Inl IndexError) \<and>
   (length (splitlines body) = 1 \<longrightarrow> gh_extract_jira_ticket_no body = Inl IndexError)"
proof (intro conjI impI allI)
  fix pre m
  assume a: "splitlines body = pre @ [m] \<and> (\<forall>l \<in> set pre. \<not> prefix ''### Ticket'' l) \<and>
             prefix ''### Ticket'' m"
  then have "ticket_loop (pre @ [m]) 0 = subscript (pre @ [m]) (length pre + 1)"
    by (intro ticket_loop_split) simp_all
  with a show "extract_jira_ticket_no body = Inl IndexError"
    by (simp add: extract_jira_ticket_no_def subscript_def)
next
  assume "length (splitlines body) = 1"
  then show "gh_extract_jira_ticket_no body = Inl IndexError"
    by (auto simp: gh_extract_jira_ticket_no_def gh_ticket_loop_0 subscript_def)
qed

text \<open>The theorem of C10 at a body that ends with the marker and at a one-line body.\<close>

theorem extract_jira_ticket_no_marker_last_witness:
  "splitlines ''Summary\<newline>### Ticket'' = [''Summary''] @ [''### Ticket''] \<and>
   \<not> prefix ''### Ticket'' ''Summary'' \<and>
   prefix ''### Ticket'' ''### Ticket'' \<and>
   extract_jira_ticket_no ''Summary\<newline>### Ticket'' = Inl IndexError \<and>
   length (splitlines ''Just one line'') = 1 \<and>
   gh_extract_jira_ticket_no ''Just one line'' = Inl IndexError"
proof -
  have sl: "splitlines ''Summary\<newline>### Ticket'' = [''Summary''] @ [''### Ticket'']"
    by (simp add: splitlines_def is_linebreak_def)
  have pre: "\<forall>l \<in> set [''Summary'']. \<not> prefix ''### Ticket'' l"
    by simp
  have m: "prefix ''### Ticket'' ''### Ticket''"
    by simp
  have r: "extract_jira_ticket_no ''Summary\<newline>### Ticket'' = Inl IndexError"
    using extract_jira_ticket_no_marker_last [of "''Summary\<newline>### Ticket''"] sl pre m by blast
  have one: "length (splitlines ''Just one line'') = 1"
    by (simp add: splitlines_def is_linebreak_def)
  have r2: "gh_extract_jira_ticket_no ''Just one line'' = Inl IndexError"
    using extract_jira_ticket_no_marker_last [of "''Just one line''"] one by blast
  from sl pre m r one r2 show ?thesis by simp
qed

text \<open>
  C10 as it is worded fails: the last line of this body matches the marker, and the
  function returns the line after the earlier marker instead of raising.
\<close>

theorem extract_jira_ticket_no_marker_last_counterexample:
  "splitlines ''### Ticket\<newline>ABC-1\<newline>### Ticket'' = [''### Ticket'', ''ABC-1'', ''### Ticket''] \<and>
   re_match_literal jira_ticket_section (last (splitlines ''### Ticket\<newline>ABC-1\<newline>### Ticket'')) \<and>
   extract_jira_ticket_no ''### Ticket\<newline>ABC-1\<newline>### Ticket'' = Inr ''ABC-1''"
  by (simp add: extract_jira_ticket_no_def splitlines_def is_linebreak_def
      ticket_loop.simps re_match_literal_def jira_ticket_section_def subscript_def)


section \<open>Theorems: changelog extraction\<close>


lemma keys_dict_append: "map fst (dict_append k v d) = map fst d"
  by (induction d) auto



lemma keys_changelog_step: "map fst (snd (changelog_step line st)) = map fst (snd st)"
  by (cases st) (simp add: changelog_step_def keys_dict_append split: option.splits)

lemma keys_changelog_loop: "map fst (snd (changelog_loop ls st)) = map fst (snd st)"
  by (induction ls arbitrary: st) (simp_all add: keys_changelog_step)







lemma keys_initial: "map fst initial_release_notes = six_categories"
  by (simp add: six_categories_def initial_release_notes_def)








section \<open>Theorems: release body and fetch\<close>


lemma unlines_append: "unlines (xs @ ys) = unlines xs @ unlines ys"
  by (simp add: unlines_def)

lemma bullet_points_loop_eq:
  "bullet_points_loop bs acc = acc @ unlines (map (\<lambda>b. ''- '' @ b) bs)"
  by (induction bs arbitrary: acc) (simp_all add: unlines_def)

lemma items_loop_eq:
  "items_loop items acc = acc @ unlines (concat (map spec_category_lines items))"
proof (induction items arbitrary: acc)
  case Nil
  show ?case by (simp add: unlines_def)
next
  case (Cons item items)
  obtain sec bs where item: "item = (sec, bs)"
    by (cases item)
  show ?case
    by (simp add: item Cons.IH bullet_points_loop_eq spec_category_lines_def unlines_def comp_def)
qed

lemma merged_prs_loop_eq:
  "merged_prs_loop es acc = acc @ unlines (concat (map spec_section_lines es))"
proof (induction es arbitrary: acc)
  case Nil
  show ?case by (simp add: unlines_def)
next
  case (Cons e es)
  show ?case
    by (simp add: Cons.IH items_loop_eq spec_section_lines_def unlines_def)
qed

lemma keys_extract_changelog: "map fst (extract_changelog b) = six_categories"
  by (simp add: extract_changelog_def keys_changelog_loop keys_initial)

lemma new_entry_keys:
  "new_entry pr m = Inr d \<Longrightarrow> map fst (release_notes d) = six_categories"
  by (auto simp: new_entry_def keys_extract_changelog split: option.splits sum.splits)

lemma prs_loop_keys:
  "prs_loop sp since prs acc = Inr es \<Longrightarrow>
   \<forall>e \<in> set acc. map fst (release_notes e) = six_categories \<Longrightarrow>
   \<forall>e \<in> set es. map fst (release_notes e) = six_categories"
proof (induction prs arbitrary: acc)
  case Nil
  then show ?case by simp
next
  case (Cons pr prs)
  from Cons.prems show ?case
    by (auto simp: new_entry_keys split: sum.splits option.splits bool.splits
        dest!: Cons.IH)
qed

lemma for_pr_in_keys:
  "for_pr_in sp since j acc = Inr es \<Longrightarrow>
   \<forall>e \<in> set acc. map fst (release_notes e) = six_categories \<Longrightarrow>
   \<forall>e \<in> set es. map fst (release_notes e) = six_categories"
  by (cases j) (auto split: if_splits dest: prs_loop_keys)

lemma get_merged_prs_loop_keys:
  assumes "get_merged_prs_loop sp get since page req acc = Some y"
  shows "(\<forall>e \<in> set acc. map fst (release_notes e) = six_categories) \<longrightarrow>
         (\<forall>es. snd y = Inr es \<longrightarrow> (\<forall>e \<in> set es. map fst (release_notes e) = six_categories))"
  using assms
proof (induction rule: get_merged_prs_loop.raw_induct [rotated 1, consumes 1, case_names step])
  case (step loop sp get since page req acc y)
  show ?case
  proof (intro impI allI)
    fix es
    assume acc: "\<forall>e \<in> set acc. map fst (release_notes e) = six_categories"
      and y: "snd y = Inr es"
    show "\<forall>e \<in> set es. map fst (release_notes e) = six_categories"
    proof (cases "response_json (get page)")
      case (Inl e)
      with step(2) y show ?thesis by auto
    next
      case (Inr j)
      show ?thesis
      proof (cases "truthy j")
        case False
        with Inr step(2) y acc show ?thesis by auto
      next
        case True
        show ?thesis
        proof (cases "for_pr_in sp since j acc")
          case (Inl e)
          with Inr True step(2) y show ?thesis by auto
        next
          case inr: (Inr acc')
          with Inr True step(2) have "loop sp get since (page + 1) (req @ [page]) acc' = Some y"
            by simp
          from step(1) [OF this] for_pr_in_keys [OF inr acc] y show ?thesis
            by blast
        qed
      qed
    qed
  qed
qed


lemma prs_loop_append:
  "prs_loop sp since (xs @ ys) acc =
     (case prs_loop sp since xs acc of Inl e \<Rightarrow> Inl e | Inr acc' \<Rightarrow> prs_loop sp since ys acc')"
  by (induction xs arbitrary: acc) (auto split: sum.splits option.splits bool.splits)

lemma loop_bad_json:
  "json_body (get page) = None \<Longrightarrow>
   get_merged_prs_loop sp get since page req acc = Some (req @ [page], Inl JSONDecodeError)"
  by (subst get_merged_prs_loop.simps) (simp add: response_json_def)

lemma loop_falsy:
  "json_body (get page) = Some j \<Longrightarrow> \<not> truthy j \<Longrightarrow>
   get_merged_prs_loop sp get since page req acc = Some (req @ [page], Inr acc)"
  by (subst get_merged_prs_loop.simps) (simp add: response_json_def)

lemma loop_object:
  "json_body (get page) = Some (JsonObject ks) \<Longrightarrow> ks \<noteq> [] \<Longrightarrow>
   get_merged_prs_loop sp get since page req acc = Some (req @ [page], Inl TypeError)"
  by (subst get_merged_prs_loop.simps) (simp add: response_json_def)

lemma loop_array:
  "json_body (get page) = Some (JsonArray prs) \<Longrightarrow> prs \<noteq> [] \<Longrightarrow>
   get_merged_prs_loop sp get since page req acc =
     (case prs_loop sp since prs acc of
        Inl e \<Rightarrow> Some (req @ [page], Inl e)
      | Inr acc' \<Rightarrow> get_merged_prs_loop sp get since (page + 1) (req @ [page]) acc')"
  by (subst get_merged_prs_loop.simps) (simp add: response_json_def)

lemma all_less_Suc_shift: "(\<forall>k < Suc n. P k) \<longleftrightarrow> P 0 \<and> (\<forall>k < n. P (Suc k))"
  by (metis less_Suc_eq_0_disj)

lemma upt_shift: "[page ..< page + Suc n] = page # [Suc page ..< Suc page + n]"
  by (simp add: upt_conv_Cons)

lemma loop_pages_ok:
  assumes "\<forall>k < length pgs. json_body (get (page + k)) = Some (JsonArray (pgs ! k)) \<and> pgs ! k \<noteq> []"
    and "prs_loop sp since (concat pgs) acc = Inr acc'"
  shows "get_merged_prs_loop sp get since page req acc =
         get_merged_prs_loop sp get since (page + length pgs)
           (req @ [page ..< page + length pgs]) acc'"
  using assms
proof (induction pgs arbitrary: page req acc)
  case Nil
  then show ?case by simp
next
  case (Cons pg pgs)
  from Cons.prems(1) have here: "json_body (get page) = Some (JsonArray pg)" "pg \<noteq> []"
    and rest: "\<forall>k < length pgs. json_body (get (Suc page + k)) = Some (JsonArray (pgs ! k)) \<and>
                 pgs ! k \<noteq> []"
    by (simp_all add: all_less_Suc_shift)
  from Cons.prems(2) obtain acc1 where
    a1: "prs_loop sp since pg acc = Inr acc1" and a2: "prs_loop sp since (concat pgs) acc1 = Inr acc'"
    by (auto simp: prs_loop_append split: sum.splits)
  have "get_merged_prs_loop sp get since page req acc =
        get_merged_prs_loop sp get since (Suc page) (req @ [page]) acc1"
    by (simp add: loop_array [of get page pg, OF here] a1)
  also have "\<dots> = get_merged_prs_loop sp get since (Suc page + length pgs)
                   ((req @ [page]) @ [Suc page ..< Suc page + length pgs]) acc'"
    by (rule Cons.IH [OF rest a2])
  also have "(req @ [page]) @ [Suc page ..< Suc page + length pgs] =
             req @ [page ..< page + length (pg # pgs)]"
    using upt_shift [of page "length pgs"] by simp
  finally show ?case by simp
qed


lemma loop_same_json:
  assumes "get_merged_prs_loop sp get since page req acc = Some y"
  shows "(\<forall>p. json_body (get' p) = json_body (get p)) \<longrightarrow>
         get_merged_prs_loop sp get' since page req acc = Some y"
  using assms
proof (induction rule: get_merged_prs_loop.raw_induct [rotated 1, consumes 1, case_names step])
  case (step loop sp get since page req acc y)
  show ?case
  proof
    assume same: "\<forall>p. json_body (get' p) = json_body (get p)"
    then have rj: "response_json (get' page) = response_json (get page)"
      by (simp add: response_json_def)
    show "get_merged_prs_loop sp get' since page req acc = Some y"
    proof (cases "response_json (get page)")
      case (Inl e)
      with step(2) rj show ?thesis
        by (subst get_merged_prs_loop.simps) simp
    next
      case (Inr j)
      show ?thesis
      proof (cases "truthy j")
        case False
        with Inr step(2) rj show ?thesis
          by (subst get_merged_prs_loop.simps) simp
      next
        case True
        show ?thesis
        proof (cases "for_pr_in sp since j acc")
          case (Inl e)
          with Inr True step(2) rj show ?thesis
            by (subst get_merged_prs_loop.simps) simp
        next
          case inr: (Inr acc')
          with Inr True step(2) have "loop sp get since (page + 1) (req @ [page]) acc' = Some y"
            by simp
          from step(1) [OF this] same
          have "get_merged_prs_loop sp get' since (page + 1) (req @ [page]) acc' = Some y"
            by blast
          with Inr True inr rj show ?thesis
            by (subst get_merged_prs_loop.simps) simp
        qed
      qed
    qed
  qed
qed

lemma get_merged_prs_same_json:
  assumes "\<forall>p. json_body (get' p) = json_body (get p)"
  shows "get_merged_prs sp get' since = get_merged_prs sp get since"
proof (cases "get_merged_prs sp get since")
  case (Some y)
  with loop_same_json [of sp get since 1 "[]" "[]" y get'] assms show ?thesis
    by (simp add: get_merged_prs_def)
next
  case None
  show ?thesis
  proof (cases "get_merged_prs sp get' since")
    case None
    with \<open>get_merged_prs sp get since = None\<close> show ?thesis by simp
  next
    case (Some y)
    with loop_same_json [of sp get' since 1 "[]" "[]" y get] assms
    have "get_merged_prs sp get since = Some y"
      by (simp add: get_merged_prs_def)
    with None show ?thesis by simp
  qed
qed


lemma pages_from_1:
  "\<forall>k < length pgs. json_body (get (Suc k)) = Some (JsonArray (pgs ! k)) \<and> pgs ! k \<noteq> [] \<Longrightarrow>
   \<forall>k < length pgs. json_body (get (1 + k)) = Some (JsonArray (pgs ! k)) \<and> pgs ! k \<noteq> []"
  by simp

lemma get_merged_prs_pages_ok:
  assumes "\<forall>k < length pgs. json_body (get (Suc k)) = Some (JsonArray (pgs ! k)) \<and> pgs ! k \<noteq> []"
    and "prs_loop sp since (concat pgs) [] = Inr es"
  shows "get_merged_prs sp get since =
         get_merged_prs_loop sp get since (Suc (length pgs)) [1 ..< Suc (length pgs)] es"
  using loop_pages_ok [OF pages_from_1 [OF assms(1)] assms(2), of "[]"]
  by (simp add: get_merged_prs_def)


text \<open>
  Claim C3, as the code behaves. With the sentinel \<^verbatim>\<open>None\<close> for the cutoff,
  \<^verbatim>\<open>generate_release_body\<close> raises \<^verbatim>\<open>TypeError\<close> in \<^verbatim>\<open>datetime.fromisoformat\<close>
  before any page is requested, so it returns no release body. \<^verbatim>\<open>get_merged_prs\<close> does
  not take \<^verbatim>\<open>None\<close> for "no cutoff" either: with \<^verbatim>\<open>since = None\<close> it raises \<^verbatim>\<open>TypeError\<close>
  at the first merged pull request, in the comparison \<^verbatim>\<open>merged_at > since\<close>.
\<close>

theorem generate_release_body_no_cutoff:
  "generate_release_body fromisoformat strptime get None = Some ([], Inl TypeError) \<and>
   (json_body (get 1) = Some (JsonArray (pr # prs)) \<and> parse_merged_at strptime pr = Inr (Some m) \<longrightarrow>
      get_merged_prs strptime get None = Some ([1], Inl TypeError))"
proof (intro conjI impI)
  show "generate_release_body fromisoformat strptime get None = Some ([], Inl TypeError)"
    by (simp add: generate_release_body_def)
next
  assume a: "json_body (get 1) = Some (JsonArray (pr # prs)) \<and>
             parse_merged_at strptime pr = Inr (Some m)"
  then have raise: "prs_loop strptime None (pr # prs) [] = Inl TypeError"
    by simp
  from a have "get_merged_prs_loop strptime get None 1 [] [] =
      (case prs_loop strptime None (pr # prs) [] of
         Inl e \<Rightarrow> Some ([] @ [1], Inl e)
       | Inr acc' \<Rightarrow> get_merged_prs_loop strptime get None (1 + 1) ([] @ [1]) acc')"
    by (intro loop_array) simp_all
  with raise show "get_merged_prs strptime get None = Some ([1], Inl TypeError)"
    by (simp add: get_merged_prs_def)
qed

text \<open>
  The theorem of C3 at a remote side with one merged pull request.
\<close>

theorem generate_release_body_no_cutoff_witness:
  "json_body (serve [ok [\<lparr>pr_title = ''Fix bug'',
        pr_body = Some ''### Ticket\<newline>ABC-1\<newline>### Fixed\<newline>- bug one'',
        pr_merged_at = Some ''2024-02-01T00:00:00Z''\<rparr>]] 1) =
     Some (JsonArray (\<lparr>pr_title = ''Fix bug'',
        pr_body = Some ''### Ticket\<newline>ABC-1\<newline>### Fixed\<newline>- bug one'',
        pr_merged_at = Some ''2024-02-01T00:00:00Z''\<rparr> # [])) \<and>
   parse_merged_at strptime_utc \<lparr>pr_title = ''Fix bug'',
        pr_body = Some ''### Ticket\<newline>ABC-1\<newline>### Fixed\<newline>- bug one'',
        pr_merged_at = Some ''2024-02-01T00:00:00Z''\<rparr> = Inr (Some (2024, 2, 1, 0, 0, 0, 0)) \<and>
   get_merged_prs strptime_utc (serve [ok [\<lparr>pr_title = ''Fix bug'',
        pr_body = Some ''### Ticket\<newline>ABC-1\<newline>### Fixed\<newline>- bug one'',
        pr_merged_at = Some ''2024-02-01T00:00:00Z''\<rparr>]]) None = Some ([1], Inl TypeError) \<and>
   generate_release_body fromisoformat_naive strptime_utc (serve [ok [\<lparr>pr_title = ''Fix bug'',
        pr_body = Some ''### Ticket\<newline>ABC-1\<newline>### Fixed\<newline>- bug one'',
        pr_merged_at = Some ''2024-02-01T00:00:00Z''\<rparr>]]) None = Some ([], Inl TypeError)"
proof -
  let ?pr = "\<lparr>pr_title = ''Fix bug'',
        pr_body = Some ''### Ticket\<newline>ABC-1\<newline>### Fixed\<newline>- bug one'',
        pr_merged_at = Some ''2024-02-01T00:00:00Z''\<rparr>"
  have page: "json_body (serve [ok [?pr]] 1) = Some (JsonArray (?pr # []))"
    by (simp add: serve_def ok_def)
  have parse: "parse_merged_at strptime_utc ?pr = Inr (Some (2024, 2, 1, 0, 0, 0, 0))"
    by code_simp
  note inst = generate_release_body_no_cutoff
    [of fromisoformat_naive strptime_utc "serve [ok [?pr]]" ?pr "[]" "(2024, 2, 1, 0, 0, 0, 0)"]
  from inst page parse
  have r: "get_merged_prs strptime_utc (serve [ok [?pr]]) None = Some ([1], Inl TypeError)"
    by blast
  from inst
  have g: "generate_release_body fromisoformat_naive strptime_utc (serve [ok [?pr]]) None =
           Some ([], Inl TypeError)"
    by blast
  from page parse r g show ?thesis by blast
qed

text \<open>
  Claim C4, as the code has it. The \<^verbatim>\<open>for\<close> statements of \<^verbatim>\<open>generate_release_body\<close> render
  the entries in order, each as the line \<^verbatim>\<open>## {ticket} - {title}\<close> followed, for every
  category with at least one bullet, by \<^verbatim>\<open>### {category}\<close> and one \<^verbatim>\<open>- {bullet}\<close> line
  per bullet, every line ended by a newline. When \<^verbatim>\<open>fromisoformat\<close> accepts the cutoff
  and the fetch returns the entries \<open>es\<close>, the function returns this rendering of
  \<open>es\<close>, and the categories of every entry are the six fixed ones in their canonical
  order. An empty ticket is interpolated as it is, so the heading of an entry without a
  ticket is \<^verbatim>\<open>##  - {title}\<close>, with two spaces.
\<close>

theorem generate_release_body_renders:
  "merged_prs_loop es [] = spec_release_body es \<and>
   (fromisoformat s = Inr since' \<and>
    get_merged_prs strptime get (Some since') = Some (requested, Inr es) \<longrightarrow>
      generate_release_body fromisoformat strptime get (Some s) =
        Some (requested, Inr (spec_release_body es)) \<and>
      (\<forall>e \<in> set es. map fst (release_notes e) = six_categories))"
proof (intro conjI impI)
  show body: "merged_prs_loop es [] = spec_release_body es"
    by (simp add: merged_prs_loop_eq spec_release_body_def)
  assume a: "fromisoformat s = Inr since' \<and>
    get_merged_prs strptime get (Some since') = Some (requested, Inr es)"
  with body show "generate_release_body fromisoformat strptime get (Some s) =
        Some (requested, Inr (spec_release_body es))"
    by (simp add: generate_release_body_def)
  from a have "get_merged_prs_loop strptime get (Some since') 1 [] [] = Some (requested, Inr es)"
    by (simp add: get_merged_prs_def)
  from get_merged_prs_loop_keys [OF this]
  show "\<forall>e \<in> set es. map fst (release_notes e) = six_categories"
    by simp
qed

text \<open>
  The theorem of C4 at the two pull requests of the end-to-end example.
\<close>

theorem generate_release_body_renders_witness:
  "fromisoformat_naive ''2024-01-15T00:00:00'' = Inr (Naive (2024, 1, 15, 0, 0, 0, 0)) \<and>
   get_merged_prs strptime_utc (serve [ok [\<lparr>pr_title = ''Fix bug'', pr_body = Some ''### Ticket\<newline>ABC-1\<newline>### Fixed\<newline>- bug one'', pr_merged_at = Some ''2024-02-01T00:00:00Z''\<rparr>,
       \<lparr>pr_title = ''Add feature'', pr_body = Some ''### Added\<newline>- feature one'', pr_merged_at = Some ''2024-03-01T00:00:00Z''\<rparr>]]) (Some (Naive (2024, 1, 15, 0, 0, 0, 0))) =
     Some ([1, 2], Inr [\<lparr>title = ''Fix bug'', release_notes = [(''Added'', []), (''Changed'', []), (''Deprecated'', []), (''Removed'', []), (''Fixed'', [''bug one'']), (''Security'', [])], ticket_no = ''ABC-1'', merged_at = (2024, 2, 1, 0, 0, 0, 0)\<rparr>,
       \<lparr>title = ''Add feature'', release_notes = [(''Added'', [''feature one'']), (''Changed'', []), (''Deprecated'', []), (''Removed'', []), (''Fixed'', []), (''Security'', [])], ticket_no = [], merged_at = (2024, 3, 1, 0, 0, 0, 0)\<rparr>]) \<and>
   generate_release_body fromisoformat_naive strptime_utc (serve [ok [\<lparr>pr_title = ''Fix bug'', pr_body = Some ''### Ticket\<newline>ABC-1\<newline>### Fixed\<newline>- bug one'', pr_merged_at = Some ''2024-02-01T00:00:00Z''\<rparr>,
       \<lparr>pr_title = ''Add feature'', pr_body = Some ''### Added\<newline>- feature one'', pr_merged_at = Some ''2024-03-01T00:00:00Z''\<rparr>]]) (Some ''2024-01-15T00:00:00'') =
     Some ([1, 2], Inr ''## ABC-1 - Fix bug\<newline>### Fixed\<newline>- bug one\<newline>##  - Add feature\<newline>### Added\<newline>- feature one\<newline>'') \<and>
   map fst (release_notes \<lparr>title = ''Fix bug'', release_notes = [(''Added'', []), (''Changed'', []), (''Deprecated'', []), (''Removed'', []), (''Fixed'', [''bug one'']), (''Security'', [])], ticket_no = ''ABC-1'', merged_at = (2024, 2, 1, 0, 0, 0, 0)\<rparr>) = six_categories"
proof -
  let ?get = "serve [ok [\<lparr>pr_title = ''Fix bug'', pr_body = Some ''### Ticket\<newline>ABC-1\<newline>### Fixed\<newline>- bug one'', pr_merged_at = Some ''2024-02-01T00:00:00Z''\<rparr>,
       \<lparr>pr_title = ''Add feature'', pr_body = Some ''### Added\<newline>- feature one'', pr_merged_at = Some ''2024-03-01T00:00:00Z''\<rparr>]]"
  let ?e1 = "\<lparr>title = ''Fix bug'', release_notes = [(''Added'', []), (''Changed'', []), (''Deprecated'', []), (''Removed'', []), (''Fixed'', [''bug one'']), (''Security'', [])], ticket_no = ''ABC-1'', merged_at = (2024, 2, 1, 0, 0, 0, 0)\<rparr>"
  let ?e2 = "\<lparr>title = ''Add feature'', release_notes = [(''Added'', [''feature one'']), (''Changed'', []), (''Deprecated'', []), (''Removed'', []), (''Fixed'', []), (''Security'', [])], ticket_no = [], merged_at = (2024, 3, 1, 0, 0, 0, 0)\<rparr>"
  have iso: "fromisoformat_naive ''2024-01-15T00:00:00'' = Inr (Naive (2024, 1, 15, 0, 0, 0, 0))"
    by code_simp
  have fetch: "get_merged_prs strptime_utc ?get (Some (Naive (2024, 1, 15, 0, 0, 0, 0))) = Some ([1, 2], Inr [?e1, ?e2])"
    by code_simp
  have doc: "spec_release_body [?e1, ?e2] = ''## ABC-1 - Fix bug\<newline>### Fixed\<newline>- bug one\<newline>##  - Add feature\<newline>### Added\<newline>- feature one\<newline>''"
    by code_simp
  note inst = generate_release_body_renders
    [where es = "[?e1, ?e2]" and fromisoformat = fromisoformat_naive
       and s = "''2024-01-15T00:00:00''" and since' = "Naive (2024, 1, 15, 0, 0, 0, 0)"
       and strptime = strptime_utc and get = ?get and requested = "[1, 2]"]
  from inst iso fetch doc
  have r: "generate_release_body fromisoformat_naive strptime_utc ?get (Some ''2024-01-15T00:00:00'') =
           Some ([1, 2], Inr ''## ABC-1 - Fix bug\<newline>### Fixed\<newline>- bug one\<newline>##  - Add feature\<newline>### Added\<newline>- feature one\<newline>'')"
    by simp
  from inst iso fetch have k: "map fst (release_notes ?e1) = six_categories"
    by simp
  from iso fetch r k show ?thesis by blast
qed

text \<open>
  C4 as it is worded fails: for the two pull requests of the end-to-end example the
  heading of the second entry is \<^verbatim>\<open>##  - Add feature\<close>, and the document differs from
  the one the specification shows, with or without a final newline.
\<close>

theorem generate_release_body_two_prs_counterexample:
  "generate_release_body fromisoformat_naive strptime_utc
     (serve [ok [\<lparr>pr_title = ''Fix bug'',
                  pr_body = Some ''### Ticket\<newline>ABC-1\<newline>### Fixed\<newline>- bug one'',
                  pr_merged_at = Some ''2024-02-01T00:00:00Z''\<rparr>,
                 \<lparr>pr_title = ''Add feature'',
                  pr_body = Some ''### Added\<newline>- feature one'',
                  pr_merged_at = Some ''2024-03-01T00:00:00Z''\<rparr>]])
     (Some ''2024-01-15T00:00:00'') =
     Some ([1, 2], Inr ''## ABC-1 - Fix bug\<newline>### Fixed\<newline>- bug one\<newline>##  - Add feature\<newline>### Added\<newline>- feature one\<newline>'') \<and>
   ''## ABC-1 - Fix bug\<newline>### Fixed\<newline>- bug one\<newline>##  - Add feature\<newline>### Added\<newline>- feature one\<newline>'' \<noteq>
   ''## ABC-1 - Fix bug\<newline>### Fixed\<newline>- bug one\<newline>## - Add feature\<newline>### Added\<newline>- feature one\<newline>'' \<and>
   ''## ABC-1 - Fix bug\<newline>### Fixed\<newline>- bug one\<newline>##  - Add feature\<newline>### Added\<newline>- feature one\<newline>'' \<noteq>
   ''## ABC-1 - Fix bug\<newline>### Fixed\<newline>- bug one\<newline>## - Add feature\<newline>### Added\<newline>- feature one''"
  by code_simp

text \<open>
  Claim C5, as the code has it. \<^verbatim>\<open>get_merged_prs\<close> never reads the status code: two
  remote sides whose responses carry the same bodies give the same result. After
  pages that were processed without an exception, a page whose body is not JSON
  raises the decoding error of \<^verbatim>\<open>response.json()\<close>, a page whose document is a
  non-empty object raises \<^verbatim>\<open>TypeError\<close>, and a page whose document is false (empty
  array, empty object or \<^verbatim>\<open>null\<close>) ends the loop, whatever its status: the entries
  collected so far are returned.
\<close>

theorem get_merged_prs_failing_page:
  assumes "\<forall>k < length pgs. json_body (get (Suc k)) = Some (JsonArray (pgs ! k)) \<and> pgs ! k \<noteq> []"
    and "prs_loop strptime since (concat pgs) [] = Inr es"
  shows "(json_body (get (Suc (length pgs))) = None \<longrightarrow>
            get_merged_prs strptime get since = Some ([1 ..< length pgs + 2], Inl JSONDecodeError)) \<and>
         (\<forall>ks. json_body (get (Suc (length pgs))) = Some (JsonObject ks) \<and> ks \<noteq> [] \<longrightarrow>
            get_merged_prs strptime get since = Some ([1 ..< length pgs + 2], Inl TypeError)) \<and>
         (\<forall>j. json_body (get (Suc (length pgs))) = Some j \<and> \<not> truthy j \<longrightarrow>
            get_merged_prs strptime get since = Some ([1 ..< length pgs + 2], Inr es)) \<and>
         (\<forall>get'. (\<forall>p. json_body (get' p) = json_body (get p)) \<longrightarrow>
            get_merged_prs strptime get' since = get_merged_prs strptime get since)"
proof -
  have start: "get_merged_prs strptime get since =
        get_merged_prs_loop strptime get since (Suc (length pgs)) [1 ..< Suc (length pgs)] es"
    by (rule get_merged_prs_pages_ok [OF assms])
  have reqs: "[1 ..< Suc (length pgs)] @ [Suc (length pgs)] = [1 ..< length pgs + 2]"
    by simp
  show ?thesis
  proof (intro conjI allI impI)
    assume a: "json_body (get (Suc (length pgs))) = None"
    have "get_merged_prs_loop strptime get since (Suc (length pgs)) [1 ..< Suc (length pgs)] es =
          Some ([1 ..< Suc (length pgs)] @ [Suc (length pgs)], Inl JSONDecodeError)"
      by (rule loop_bad_json [of get "Suc (length pgs)", OF a])
    with start reqs
    show "get_merged_prs strptime get since = Some ([1 ..< length pgs + 2], Inl JSONDecodeError)"
      by simp
  next
    fix ks
    assume "json_body (get (Suc (length pgs))) = Some (JsonObject ks) \<and> ks \<noteq> []"
    then have a: "json_body (get (Suc (length pgs))) = Some (JsonObject ks)" and b: "ks \<noteq> []"
      by simp_all
    have "get_merged_prs_loop strptime get since (Suc (length pgs)) [1 ..< Suc (length pgs)] es =
          Some ([1 ..< Suc (length pgs)] @ [Suc (length pgs)], Inl TypeError)"
      by (rule loop_object [of get "Suc (length pgs)" ks, OF a b])
    with start reqs
    show "get_merged_prs strptime get since = Some ([1 ..< length pgs + 2], Inl TypeError)"
      by simp
  next
    fix j
    assume "json_body (get (Suc (length pgs))) = Some j \<and> \<not> truthy j"
    then have a: "json_body (get (Suc (length pgs))) = Some j" and b: "\<not> truthy j"
      by simp_all
    have "get_merged_prs_loop strptime get since (Suc (length pgs)) [1 ..< Suc (length pgs)] es =
          Some ([1 ..< Suc (length pgs)] @ [Suc (length pgs)], Inr es)"
      by (rule loop_falsy [of get "Suc (length pgs)" j, OF a b])
    with start reqs
    show "get_merged_prs strptime get since = Some ([1 ..< length pgs + 2], Inr es)"
      by simp
  next
    fix get' :: "nat \<Rightarrow> response"
    assume "\<forall>p. json_body (get' p) = json_body (get p)"
    then show "get_merged_prs strptime get' since = get_merged_prs strptime get since"
      by (rule get_merged_prs_same_json)
  qed
qed

text \<open>
  The theorem of C5 at remote sides whose second page fails with status 502 and a
  body that is not JSON, with status 404 and an error document, and with status 500
  and an empty object.
\<close>

theorem get_merged_prs_failing_page_witness:
  "json_body (serve [ok [\<lparr>pr_title = ''Fix bug'', pr_body = Some ''### Ticket\<newline>ABC-1\<newline>### Fixed\<newline>- bug one'', pr_merged_at = Some ''2024-02-01T00:00:00Z''\<rparr>], \<lparr>status_code = 502, json_body = None\<rparr>] 1) = Some (JsonArray [\<lparr>pr_title = ''Fix bug'', pr_body = Some ''### Ticket\<newline>ABC-1\<newline>### Fixed\<newline>- bug one'', pr_merged_at = Some ''2024-02-01T00:00:00Z''\<rparr>]) \<and>
   prs_loop strptime_utc (Some (Naive (2024, 1, 15, 0, 0, 0, 0))) [\<lparr>pr_title = ''Fix bug'', pr_body = Some ''### Ticket\<newline>ABC-1\<newline>### Fixed\<newline>- bug one'', pr_merged_at = Some ''2024-02-01T00:00:00Z''\<rparr>] [] =
     Inr [\<lparr>title = ''Fix bug'', release_notes = [(''Added'', []), (''Changed'', []), (''Deprecated'', []), (''Removed'', []), (''Fixed'', [''bug one'']), (''Security'', [])], ticket_no = ''ABC-1'', merged_at = (2024, 2, 1, 0, 0, 0, 0)\<rparr>] \<and>
   json_body (serve [ok [\<lparr>pr_title = ''Fix bug'', pr_body = Some ''### Ticket\<newline>ABC-1\<newline>### Fixed\<newline>- bug one'', pr_merged_at = Some ''2024-02-01T00:00:00Z''\<rparr>], \<lparr>status_code = 502, json_body = None\<rparr>] 2) = None \<and>
   get_merged_prs strptime_utc (serve [ok [\<lparr>pr_title = ''Fix bug'', pr_body = Some ''### Ticket\<newline>ABC-1\<newline>### Fixed\<newline>- bug one'', pr_merged_at = Some ''2024-02-01T00:00:00Z''\<rparr>], \<lparr>status_code = 502, json_body = None\<rparr>]) (Some (Naive (2024, 1, 15, 0, 0, 0, 0))) =
     Some ([1, 2], Inl JSONDecodeError) \<and>
   get_merged_prs strptime_utc (serve [ok [\<lparr>pr_title = ''Fix bug'', pr_body = Some ''### Ticket\<newline>ABC-1\<newline>### Fixed\<newline>- bug one'', pr_merged_at = Some ''2024-02-01T00:00:00Z''\<rparr>], \<lparr>status_code = 200, json_body = None\<rparr>]) (Some (Naive (2024, 1, 15, 0, 0, 0, 0))) =
     get_merged_prs strptime_utc (serve [ok [\<lparr>pr_title = ''Fix bug'', pr_body = Some ''### Ticket\<newline>ABC-1\<newline>### Fixed\<newline>- bug one'', pr_merged_at = Some ''2024-02-01T00:00:00Z''\<rparr>], \<lparr>status_code = 502, json_body = None\<rparr>]) (Some (Naive (2024, 1, 15, 0, 0, 0, 0))) \<and>
   json_body (serve [ok [\<lparr>pr_title = ''Fix bug'', pr_body = Some ''### Ticket\<newline>ABC-1\<newline>### Fixed\<newline>- bug one'', pr_merged_at = Some ''2024-02-01T00:00:00Z''\<rparr>], \<lparr>status_code = 404, json_body = Some (JsonObject [''message'', ''documentation_url''])\<rparr>] 2) = Some (JsonObject [''message'', ''documentation_url'']) \<and>
   get_merged_prs strptime_utc (serve [ok [\<lparr>pr_title = ''Fix bug'', pr_body = Some ''### Ticket\<newline>ABC-1\<newline>### Fixed\<newline>- bug one'', pr_merged_at = Some ''2024-02-01T00:00:00Z''\<rparr>], \<lparr>status_code = 404, json_body = Some (JsonObject [''message'', ''documentation_url''])\<rparr>]) (Some (Naive (2024, 1, 15, 0, 0, 0, 0))) =
     Some ([1, 2], Inl TypeError) \<and>
   json_body (serve [ok [\<lparr>pr_title = ''Fix bug'', pr_body = Some ''### Ticket\<newline>ABC-1\<newline>### Fixed\<newline>- bug one'', pr_merged_at = Some ''2024-02-01T00:00:00Z''\<rparr>], \<lparr>status_code = 500, json_body = Some (JsonObject [])\<rparr>] 2) = Some (JsonObject []) \<and>
   \<not> truthy (JsonObject []) \<and>
   get_merged_prs strptime_utc (serve [ok [\<lparr>pr_title = ''Fix bug'', pr_body = Some ''### Ticket\<newline>ABC-1\<newline>### Fixed\<newline>- bug one'', pr_merged_at = Some ''2024-02-01T00:00:00Z''\<rparr>], \<lparr>status_code = 500, json_body = Some (JsonObject [])\<rparr>]) (Some (Naive (2024, 1, 15, 0, 0, 0, 0))) =
     Some ([1, 2], Inr [\<lparr>title = ''Fix bug'', release_notes = [(''Added'', []), (''Changed'', []), (''Deprecated'', []), (''Removed'', []), (''Fixed'', [''bug one'']), (''Security'', [])], ticket_no = ''ABC-1'', merged_at = (2024, 2, 1, 0, 0, 0, 0)\<rparr>])"
proof -
  let ?p = "\<lparr>pr_title = ''Fix bug'', pr_body = Some ''### Ticket\<newline>ABC-1\<newline>### Fixed\<newline>- bug one'', pr_merged_at = Some ''2024-02-01T00:00:00Z''\<rparr>"
  let ?e = "\<lparr>title = ''Fix bug'', release_notes = [(''Added'', []), (''Changed'', []), (''Deprecated'', []), (''Removed'', []), (''Fixed'', [''bug one'']), (''Security'', [])], ticket_no = ''ABC-1'', merged_at = (2024, 2, 1, 0, 0, 0, 0)\<rparr>"
  let ?since = "Some (Naive (2024, 1, 15, 0, 0, 0, 0))"
  let ?g502 = "serve [ok [?p], \<lparr>status_code = 502, json_body = None\<rparr>]"
  let ?g200 = "serve [ok [?p], \<lparr>status_code = 200, json_body = None\<rparr>]"
  let ?g404 = "serve [ok [?p], \<lparr>status_code = 404, json_body = Some (JsonObject [''message'', ''documentation_url''])\<rparr>]"
  let ?g500 = "serve [ok [?p], \<lparr>status_code = 500, json_body = Some (JsonObject [])\<rparr>]"
  have run: "prs_loop strptime_utc ?since (concat [[?p]]) [] = Inr [?e]"
    by code_simp
  then have run': "prs_loop strptime_utc ?since [?p] [] = Inr [?e]"
    by simp
  have reqs: "[1 ..< length [[?p]] + 2] = [1, 2]"
    by code_simp
  have first: "json_body (?g502 1) = Some (JsonArray [?p])"
    by (simp add: serve_def ok_def)
  have pages502: "\<forall>k < length [[?p]].
      json_body (?g502 (Suc k)) = Some (JsonArray ([[?p]] ! k)) \<and> [[?p]] ! k \<noteq> []"
    by (simp add: serve_def ok_def)
  have pages404: "\<forall>k < length [[?p]].
      json_body (?g404 (Suc k)) = Some (JsonArray ([[?p]] ! k)) \<and> [[?p]] ! k \<noteq> []"
    by (simp add: serve_def ok_def)
  have pages500: "\<forall>k < length [[?p]].
      json_body (?g500 (Suc k)) = Some (JsonArray ([[?p]] ! k)) \<and> [[?p]] ! k \<noteq> []"
    by (simp add: serve_def ok_def)
  have bad: "json_body (?g502 2) = None"
    by (simp add: serve_def)
  have obj: "json_body (?g404 2) = Some (JsonObject [''message'', ''documentation_url''])"
    by (simp add: serve_def)
  have empty: "json_body (?g500 2) = Some (JsonObject [])"
    by (simp add: serve_def)
  have falsy: "\<not> truthy (JsonObject [])"
    by simp
  have same: "\<forall>p. json_body (?g200 p) = json_body (?g502 p)"
    by (simp add: serve_def nth_Cons')
  from get_merged_prs_failing_page [OF pages502 run] bad reqs
  have r1: "get_merged_prs strptime_utc ?g502 ?since = Some ([1, 2], Inl JSONDecodeError)"
    by (simp add: numeral_2_eq_2)
  from get_merged_prs_failing_page [OF pages502 run] same
  have r2: "get_merged_prs strptime_utc ?g200 ?since = get_merged_prs strptime_utc ?g502 ?since"
    by blast
  from get_merged_prs_failing_page [OF pages404 run] obj reqs
  have r3: "get_merged_prs strptime_utc ?g404 ?since = Some ([1, 2], Inl TypeError)"
    by (simp add: numeral_2_eq_2)
  from get_merged_prs_failing_page [OF pages500 run] empty falsy reqs
  have r4: "get_merged_prs strptime_utc ?g500 ?since = Some ([1, 2], Inr [?e])"
    by (simp add: numeral_2_eq_2)
  from first run' bad r1 r2 obj r3 empty falsy r4 show ?thesis
    by blast
qed

text \<open>
  C5 as it is worded fails: the second page has status 500 and an empty object as
  its document; the function returns the entry of the first page as if the list were
  complete, and the third page is never requested.
\<close>

theorem get_merged_prs_status_500_counterexample:
  "status_code
     (serve [ok [\<lparr>pr_title = ''Fix bug'',
                  pr_body = Some ''### Ticket\<newline>ABC-1\<newline>### Fixed\<newline>- bug one'',
                  pr_merged_at = Some ''2024-02-01T00:00:00Z''\<rparr>],
             \<lparr>status_code = 500, json_body = Some (JsonObject [])\<rparr>,
             ok [\<lparr>pr_title = ''Add feature'',
                  pr_body = Some ''### Added\<newline>- feature one'',
                  pr_merged_at = Some ''2024-03-01T00:00:00Z''\<rparr>]] 2) = 500 \<and>
   get_merged_prs strptime_utc
     (serve [ok [\<lparr>pr_title = ''Fix bug'',
                  pr_body = Some ''### Ticket\<newline>ABC-1\<newline>### Fixed\<newline>- bug one'',
                  pr_merged_at = Some ''2024-02-01T00:00:00Z''\<rparr>],
             \<lparr>status_code = 500, json_body = Some (JsonObject [])\<rparr>,
             ok [\<lparr>pr_title = ''Add feature'',
                  pr_body = Some ''### Added\<newline>- feature one'',
                  pr_merged_at = Some ''2024-03-01T00:00:00Z''\<rparr>]])
     (Some (Naive (2024, 1, 15, 0, 0, 0, 0))) =
     Some ([1, 2],
       Inr [\<lparr>title = ''Fix bug'',
             release_notes = [(''Added'', []), (''Changed'', []), (''Deprecated'', []),
                              (''Removed'', []), (''Fixed'', [''bug one'']), (''Security'', [])],
             ticket_no = ''ABC-1'', merged_at = (2024, 2, 1, 0, 0, 0, 0)\<rparr>])"
  by code_simp





end
